theory Spec2Isabelle
  imports Main "HOL-Library.Word"
begin

unbundle bit_operations_syntax

section \<open>mb-forwarder: data model\<close>

text \<open>
  The gateway of \<^verbatim>\<open>forwarder.go\<close> and the configuration loader of
  \<^verbatim>\<open>config.go\<close>. Go's \<^verbatim>\<open>byte\<close> is an 8-bit word, \<^verbatim>\<open>uint16\<close> a 16-bit
  word and \<^verbatim>\<open>int\<close> a HOL integer (every \<^verbatim>\<open>int\<close> the request path computes is
  built from at most two bytes, so no operation on it can overflow 64 bits; the one
  product that can, in \<^verbatim>\<open>createClient\<close>, has its wrap-around written out).
  A \<^verbatim>\<open>nil\<close> slice is the empty list.
\<close>

type_synonym byte = "8 word"
type_synonym uint16 = "16 word"

subsection \<open>config.go\<close>

record Server =
  ConnType :: string
  SlaveID :: int
  Addr :: string
  Port :: int
  BaudRate :: int
  DataBits :: int
  StopBits :: int
  Parity :: string
  Timeout :: int

text \<open>
  \<^verbatim>\<open>Servers map[byte]Server\<close>: an association list with \<^const>\<open>map_of\<close> as lookup;
  the order of the list is the order in which a \<^verbatim>\<open>range\<close> loop visits the map.
\<close>

record Config =
  ListenPort :: int
  Servers :: "(byte \<times> Server) list"

text \<open>
  Errors are values. The constructors stand for the \<^verbatim>\<open>fmt.Errorf\<close> calls of the
  source, with the arguments of the format string; \<open>ClientError\<close> is an error of the
  modbus client library, identified with its text (\<^verbatim>\<open>err.Error()\<close>).
\<close>

datatype error =
    InsufficientData
  | NoSlaveIDInFrame
  | SlaveNotConfigured byte
  | InsufficientDataForByteCount
  | ClientError string
  | NoHandlerFor string
  | CreateClientFailed byte error
  | NoServersConfigured
  | InvalidSlaveID byte
  | ConnTypeRequired byte
  | InvalidConnType byte string
  | AddrRequiredTCP byte
  | AddrRequiredRTU byte

text \<open>
  \<^verbatim>\<open>validateServer(slaveID byte, server Server) error\<close>. The parameter \<^verbatim>\<open>server\<close> is
  a copy of the map's value: the function assigns the defaults to that copy and returns
  only the error. \<open>validateServer_local\<close> computes both, the error and the local copy
  as it stands when the function returns; \<open>validateServer\<close> is what the caller gets.
  \<open>defaultTimeout\<close> is the last statement before \<^verbatim>\<open>return nil\<close>, shared by the branches.
\<close>

definition defaultTimeout :: "Server \<Rightarrow> error option \<times> Server" where
  "defaultTimeout server =
    (None, if Timeout server \<le> 0 then server\<lparr>Timeout := 2\<rparr> else server)"

definition validateServer_local :: "byte \<Rightarrow> Server \<Rightarrow> error option \<times> Server" where
  "validateServer_local slaveID server =
    (if slaveID < 1 \<or> slaveID > 255 then (Some (InvalidSlaveID slaveID), server)
     else if ConnType server = [] then (Some (ConnTypeRequired slaveID), server)
     else if ConnType server \<noteq> ''tcp'' \<and> ConnType server \<noteq> ''rtu''
       then (Some (InvalidConnType slaveID (ConnType server)), server)
     else if ConnType server = ''tcp'' then
       (if Addr server = [] then (Some (AddrRequiredTCP slaveID), server)
        else defaultTimeout (if Port server \<le> 0 then server\<lparr>Port := 502\<rparr> else server))
     else if ConnType server = ''rtu'' then
       (if Addr server = [] then (Some (AddrRequiredRTU slaveID), server)
        else
          let a = (if BaudRate server \<le> 0 then server\<lparr>BaudRate := 9600\<rparr> else server);
              b = (if DataBits a \<le> 0 then a\<lparr>DataBits := 8\<rparr> else a);
              c = (if StopBits b \<le> 0 then b\<lparr>StopBits := 1\<rparr> else b)
          in defaultTimeout (if Parity c = [] then c\<lparr>Parity := ''N''\<rparr> else c))
     else defaultTimeout server)"

definition validateServer :: "byte \<Rightarrow> Server \<Rightarrow> error option" where
  "validateServer slaveID server = fst (validateServer_local slaveID server)"

text \<open>
  The loop of \<^verbatim>\<open>validateConfig\<close> over \<^verbatim>\<open>C.Servers\<close>: the first error ends it. The
  loop variable \<^verbatim>\<open>server\<close> is handed to \<^verbatim>\<open>validateServer\<close> by value and nothing is
  stored back into the map.
\<close>

fun validateServers :: "(byte \<times> Server) list \<Rightarrow> error option" where
  "validateServers [] = None"
| "validateServers ((slaveID, server) # rest) =
    (case validateServer slaveID server of
       Some err \<Rightarrow> Some err
     | None \<Rightarrow> validateServers rest)"

text \<open>
  \<^verbatim>\<open>validateConfig\<close> works on the global \<^verbatim>\<open>C\<close>: the model takes the decoded
  configuration and returns the error together with \<^verbatim>\<open>C\<close> as the call leaves it.
\<close>

definition validateConfig :: "Config \<Rightarrow> error option \<times> Config" where
  "validateConfig C =
    (let C1 = (if ListenPort C \<le> 0 then C\<lparr>ListenPort := 1602\<rparr> else C)
     in if length (Servers C1) = 0 then (Some NoServersConfigured, C1)
        else (validateServers (Servers C1), C1))"

subsection \<open>forwarder.go: clients\<close>

text \<open>
  The client handlers of the modbus library, by the fields \<^verbatim>\<open>createClient\<close> sets:
  the address (for TCP, the pair that \<^verbatim>\<open>"%s:%d"\<close> prints), the serial parameters, the
  timeout in nanoseconds and the slave identifier.
\<close>

datatype ClientHandler =
    TCPClientHandler string int int byte
  | RTUClientHandler string int int int string int byte

record modbusClient =
  handler :: ClientHandler
  connType :: string
  addr :: string
  port :: int
  baudRate :: int
  dataBits :: int
  stopBits :: int
  parity :: string
  timeout :: int
  lastError :: "string option"
  lastConn :: nat

record Forwarder =
  config :: Config
  clients :: "(byte \<times> modbusClient) list"

definition NewForwarder :: "Config \<Rightarrow> Forwarder" where
  "NewForwarder cfg = \<lparr>config = cfg, clients = []\<rparr>"

text \<open>
  \<^verbatim>\<open>time.Duration(config.Timeout) * time.Second\<close>: a product of 64-bit signed
  integers, which wraps.
\<close>

definition seconds :: "int \<Rightarrow> int" where
  "seconds n = sint (word_of_int (n * 1000000000) :: 64 word)"

definition createClient :: "byte \<Rightarrow> Server \<Rightarrow> error + modbusClient" where
  "createClient slaveID cfg =
    (let tmo = seconds (Timeout cfg);
         h = (if ConnType cfg = ''tcp'' \<or> ConnType cfg = ''TCP''
                then Some (TCPClientHandler (Addr cfg) (Port cfg) tmo slaveID)
              else if ConnType cfg = ''rtu'' \<or> ConnType cfg = ''RTU''
                then Some (RTUClientHandler (Addr cfg) (BaudRate cfg) (DataBits cfg)
                             (StopBits cfg) (Parity cfg) tmo slaveID)
              else None)
     in case h of
          None \<Rightarrow> Inl (NoHandlerFor (ConnType cfg))
        | Some hdl \<Rightarrow>
            Inr \<lparr>handler = hdl, connType = ConnType cfg, addr = Addr cfg, port = Port cfg,
                 baudRate = BaudRate cfg, dataBits = DataBits cfg, stopBits = StopBits cfg,
                 parity = Parity cfg, timeout = tmo, lastError = None, lastConn = 0\<rparr>)"

text \<open>
  \<^verbatim>\<open>s.clients[slaveID] = client\<close>: the entry of the key is replaced where it exists
  and added otherwise.
\<close>

fun assign :: "byte \<Rightarrow> modbusClient \<Rightarrow> (byte \<times> modbusClient) list \<Rightarrow> (byte \<times> modbusClient) list" where
  "assign k v [] = [(k, v)]"
| "assign k v ((k', v') # rest) =
    (if k' = k then (k, v) # rest else (k', v') # assign k v rest)"

fun initClientsLoop :: "(byte \<times> Server) list \<Rightarrow> Forwarder \<Rightarrow> error option \<times> Forwarder" where
  "initClientsLoop [] s = (None, s)"
| "initClientsLoop ((slaveID, serverConfig) # rest) s =
    (case createClient slaveID serverConfig of
       Inl err \<Rightarrow> (Some (CreateClientFailed slaveID err), s)
     | Inr client \<Rightarrow> initClientsLoop rest (s\<lparr>clients := assign slaveID client (clients s)\<rparr>))"

definition initClients :: "Forwarder \<Rightarrow> error option \<times> Forwarder" where
  "initClients s = initClientsLoop (Servers (config s)) s"

definition getClient :: "Forwarder \<Rightarrow> byte \<Rightarrow> error + modbusClient" where
  "getClient s slaveID =
    (case map_of (clients s) slaveID of
       None \<Rightarrow> Inl (SlaveNotConfigured slaveID)
     | Some client \<Rightarrow> Inr client)"

subsection \<open>forwarder.go: frames, backend calls and the trace of effects\<close>

text \<open>
  \<^verbatim>\<open>mbserver.Framer\<close> is an interface of the server library; the gateway reads a frame
  through \<^verbatim>\<open>Bytes()\<close> (the raw frame) and \<^verbatim>\<open>GetData()\<close> (the data of the PDU, after
  the function code) only.
\<close>

record Framer =
  Bytes :: "byte list"
  GetData :: "byte list"

text \<open>The exception codes of the server library that the gateway returns.\<close>

datatype Exception = Success | IllegalDataAddress | SlaveDeviceFailure

text \<open>
  The methods of \<^verbatim>\<open>modbus.Client\<close> that the gateway calls, with their arguments. Each
  returns \<^verbatim>\<open>(results []byte, err error)\<close>: the model of the devices behind the gateway
  is a function from the slave identifier of the client and the call to the text of the
  error or the result bytes.
\<close>

datatype call =
    ReadCoils uint16 uint16
  | ReadDiscreteInputs uint16 uint16
  | ReadHoldingRegisters uint16 uint16
  | ReadInputRegisters uint16 uint16
  | WriteSingleCoil uint16 uint16
  | WriteSingleRegister uint16 uint16
  | WriteMultipleCoils uint16 uint16 "byte list"
  | WriteMultipleRegisters uint16 uint16 "byte list"

type_synonym backend = "byte \<Rightarrow> call \<Rightarrow> string + byte list"

text \<open>
  What a function does besides returning: the calls to a backend client, the lines it
  logs (\<^verbatim>\<open>log.Printf\<close>: the format string and its arguments) and the transports it
  closes, in the order in which they happen.
\<close>

datatype arg = AByte byte | AInt int | ABool bool | AStr string | AErr error

datatype event =
    Call byte call
  | Log string "arg list"
  | CloseHandler byte

fun isCall :: "event \<Rightarrow> bool" where
  "isCall (Call _ _) = True"
| "isCall _ = False"

fun isClose :: "event \<Rightarrow> bool" where
  "isClose (CloseHandler _) = True"
| "isClose _ = False"

fun isLog :: "event \<Rightarrow> bool" where
  "isLog (Log _ _) = True"
| "isLog _ = False"

subsection \<open>forwarder.go: decoding a request\<close>

definition getSlaveID :: "Framer \<Rightarrow> byte" where
  "getSlaveID frame = (if length (Bytes frame) < 7 then 0 else Bytes frame ! 6)"

text \<open>\<^verbatim>\<open>int(data[i])<<8 | int(data[i+1])\<close>\<close>

definition be16 :: "byte list \<Rightarrow> nat \<Rightarrow> int" where
  "be16 data i = push_bit 8 (uint (data ! i)) OR uint (data ! (i + 1))"

definition parseRequest :: "Forwarder \<Rightarrow> Framer \<Rightarrow> error + (byte \<times> int \<times> int)" where
  "parseRequest s frame =
    (let data = GetData frame in
     if length data < 4 then Inl InsufficientData
     else
       let frameSlaveID = getSlaveID frame in
       if frameSlaveID = 0 then Inl NoSlaveIDInFrame
       else if map_of (Servers (config s)) frameSlaveID = None
         then Inl (SlaveNotConfigured frameSlaveID)
       else Inr (frameSlaveID, be16 data 0, be16 data 2))"

definition parseWriteSingleRequest :: "Forwarder \<Rightarrow> Framer \<Rightarrow> error + (byte \<times> int \<times> int)" where
  "parseWriteSingleRequest s frame =
    (let data = GetData frame in
     if length data < 4 then Inl InsufficientData
     else
       let frameSlaveID = getSlaveID frame in
       if frameSlaveID = 0 then Inl NoSlaveIDInFrame
       else if map_of (Servers (config s)) frameSlaveID = None
         then Inl (SlaveNotConfigured frameSlaveID)
       else Inr (frameSlaveID, be16 data 0, be16 data 2))"

text \<open>\<^verbatim>\<open>frameData[5 : 5+byteCount]\<close> is taken only when the slice is that long.\<close>

definition parseWriteMultipleRequest ::
    "Forwarder \<Rightarrow> Framer \<Rightarrow> error + (byte \<times> int \<times> int \<times> byte list)" where
  "parseWriteMultipleRequest s frame =
    (let frameData = GetData frame in
     if length frameData < 6 then Inl InsufficientData
     else
       let frameSlaveID = getSlaveID frame in
       if frameSlaveID = 0 then Inl NoSlaveIDInFrame
       else if map_of (Servers (config s)) frameSlaveID = None
         then Inl (SlaveNotConfigured frameSlaveID)
       else
         let address = be16 frameData 0;
             quantity = be16 frameData 2;
             byteCount = uint (frameData ! 4)
         in if int (length frameData) < 5 + byteCount then Inl InsufficientDataForByteCount
            else Inr (frameSlaveID, address, quantity,
                      take (nat byteCount) (drop 5 frameData)))"

subsection \<open>forwarder.go: the function code handlers\<close>

text \<open>
  A handler gets the backends, the forwarder and the frame, and returns the data and
  the exception of the Go function, the forwarder as the call leaves it, and the trace
  of its effects. The parameter \<^verbatim>\<open>server\<close> is not used by any handler.
\<close>

type_synonym handlerFn =
  "backend \<Rightarrow> Forwarder \<Rightarrow> Framer \<Rightarrow> (byte list \<times> Exception) \<times> Forwarder \<times> event list"

text \<open>
  \<^verbatim>\<open>response := make([]byte, 1+len(results)); response[0] = byte(len(results));
  copy(response[1:], results)\<close>
\<close>

definition readCoils :: handlerFn where
  "readCoils be s frame =
    (case parseRequest s frame of
       Inl err \<Rightarrow>
         (([], IllegalDataAddress), s, [Log ''failed to parse read coils request: %v'' [AErr err]])
     | Inr (slaveID, address, quantity) \<Rightarrow>
         (case getClient s slaveID of
            Inl err \<Rightarrow>
              (([], SlaveDeviceFailure), s, [Log ''failed to get client: %v'' [AErr err]])
          | Inr client \<Rightarrow>
              (let c = ReadCoils (word_of_int address) (word_of_int quantity) in
               case be slaveID c of
                 Inl err \<Rightarrow>
                   (([], SlaveDeviceFailure), s,
                    [Call slaveID c,
                     Log ''failed to read coils (slave %d, addr %d, count %d): %v''
                       [AByte slaveID, AInt address, AInt quantity, AErr (ClientError err)]])
               | Inr results \<Rightarrow>
                   ((of_nat (length results) # results, Success), s, [Call slaveID c]))))"

definition readDiscreteInputs :: handlerFn where
  "readDiscreteInputs be s frame =
    (case parseRequest s frame of
       Inl err \<Rightarrow>
         (([], IllegalDataAddress), s, [Log ''failed to parse read discrete inputs request: %v'' [AErr err]])
     | Inr (slaveID, address, quantity) \<Rightarrow>
         (case getClient s slaveID of
            Inl err \<Rightarrow>
              (([], SlaveDeviceFailure), s, [Log ''failed to get client: %v'' [AErr err]])
          | Inr client \<Rightarrow>
              (let c = ReadDiscreteInputs (word_of_int address) (word_of_int quantity) in
               case be slaveID c of
                 Inl err \<Rightarrow>
                   (([], SlaveDeviceFailure), s,
                    [Call slaveID c,
                     Log ''failed to read discrete inputs (slave %d, addr %d, count %d): %v''
                       [AByte slaveID, AInt address, AInt quantity, AErr (ClientError err)]])
               | Inr results \<Rightarrow>
                   ((of_nat (length results) # results, Success), s, [Call slaveID c]))))"

text \<open>
  \<^verbatim>\<open>response := make([]byte, 1+len(results)); response[0] = byte(len(results) * 2);
  for i, value := range results { response[1+i] = value }\<close>: \<^verbatim>\<open>results\<close> is a slice
  of bytes, each copied to the response after the first byte.
\<close>

definition readHoldingRegisters :: handlerFn where
  "readHoldingRegisters be s frame =
    (case parseRequest s frame of
       Inl err \<Rightarrow>
         (([], IllegalDataAddress), s, [Log ''failed to parse read holding registers request: %v'' [AErr err]])
     | Inr (slaveID, address, quantity) \<Rightarrow>
         (case getClient s slaveID of
            Inl err \<Rightarrow>
              (([], SlaveDeviceFailure), s, [Log ''failed to get client: %v'' [AErr err]])
          | Inr client \<Rightarrow>
              (let c = ReadHoldingRegisters (word_of_int address) (word_of_int quantity) in
               case be slaveID c of
                 Inl err \<Rightarrow>
                   (([], SlaveDeviceFailure), s,
                    [Call slaveID c,
                     Log ''failed to read holding registers (slave %d, addr %d, count %d): %v''
                       [AByte slaveID, AInt address, AInt quantity, AErr (ClientError err)]])
               | Inr results \<Rightarrow>
                   ((of_nat (length results * 2) # results, Success), s, [Call slaveID c]))))"

definition readInputRegisters :: handlerFn where
  "readInputRegisters be s frame =
    (case parseRequest s frame of
       Inl err \<Rightarrow>
         (([], IllegalDataAddress), s, [Log ''failed to parse read input registers request: %v'' [AErr err]])
     | Inr (slaveID, address, quantity) \<Rightarrow>
         (case getClient s slaveID of
            Inl err \<Rightarrow>
              (([], SlaveDeviceFailure), s, [Log ''failed to get client: %v'' [AErr err]])
          | Inr client \<Rightarrow>
              (let c = ReadInputRegisters (word_of_int address) (word_of_int quantity) in
               case be slaveID c of
                 Inl err \<Rightarrow>
                   (([], SlaveDeviceFailure), s,
                    [Call slaveID c,
                     Log ''failed to read input registers (slave %d, addr %d, count %d): %v''
                       [AByte slaveID, AInt address, AInt quantity, AErr (ClientError err)]])
               | Inr results \<Rightarrow>
                   ((of_nat (length results * 2) # results, Success), s, [Call slaveID c]))))"

text \<open>
  \<^verbatim>\<open>coilValue := value == 0xFF00\<close> is used by the two log lines only; the client is
  called with \<^verbatim>\<open>uint16(value)\<close>. The response is \<^verbatim>\<open>frame.GetData()[0:4]\<close>.
\<close>

definition writeSingleCoil :: handlerFn where
  "writeSingleCoil be s frame =
    (case parseWriteSingleRequest s frame of
       Inl err \<Rightarrow>
         (([], IllegalDataAddress), s, [Log ''failed to parse write single coil request: %v'' [AErr err]])
     | Inr (slaveID, address, val) \<Rightarrow>
         (case getClient s slaveID of
            Inl err \<Rightarrow>
              (([], SlaveDeviceFailure), s, [Log ''failed to get client: %v'' [AErr err]])
          | Inr client \<Rightarrow>
              (let coilValue = (val = 0xFF00);
                   c = WriteSingleCoil (word_of_int address) (word_of_int val) in
               case be slaveID c of
                 Inl err \<Rightarrow>
                   (([], SlaveDeviceFailure), s,
                    [Call slaveID c,
                     Log ''failed to write single coil (slave %d, addr %d, value %v): %v''
                       [AByte slaveID, AInt address, ABool coilValue, AErr (ClientError err)]])
               | Inr results \<Rightarrow>
                   ((take 4 (GetData frame), Success), s,
                    [Call slaveID c,
                     Log ''write single coil success (slave %d, addr %d, value %v)''
                       [AByte slaveID, AInt address, ABool coilValue]]))))"

definition writeSingleRegister :: handlerFn where
  "writeSingleRegister be s frame =
    (case parseWriteSingleRequest s frame of
       Inl err \<Rightarrow>
         (([], IllegalDataAddress), s, [Log ''failed to parse write single register request: %v'' [AErr err]])
     | Inr (slaveID, address, val) \<Rightarrow>
         (case getClient s slaveID of
            Inl err \<Rightarrow>
              (([], SlaveDeviceFailure), s, [Log ''failed to get client: %v'' [AErr err]])
          | Inr client \<Rightarrow>
              (let c = WriteSingleRegister (word_of_int address) (word_of_int val) in
               case be slaveID c of
                 Inl err \<Rightarrow>
                   (([], SlaveDeviceFailure), s,
                    [Call slaveID c,
                     Log ''failed to write single register (slave %d, addr %d, value %d): %v''
                       [AByte slaveID, AInt address, AInt val, AErr (ClientError err)]])
               | Inr results \<Rightarrow>
                   ((take 4 (GetData frame), Success), s,
                    [Call slaveID c,
                     Log ''write single register success (slave %d, addr %d, value %d)''
                       [AByte slaveID, AInt address, AInt val]]))))"

text \<open>
  The two loops of \<^verbatim>\<open>writeMultipleCoils\<close>: the bits of the request as booleans (a coil
  beyond the data is \<^verbatim>\<open>false\<close>), then the booleans packed again, bit \<open>i mod 8\<close> of
  byte \<open>i div 8\<close>.
\<close>

definition unpackCoils :: "int \<Rightarrow> byte list \<Rightarrow> bool list" where
  "unpackCoils quantity data =
    map (\<lambda>i. let byteIndex = i div 8; bitIndex = i mod 8 in
              if byteIndex < length data
              then (data ! byteIndex) AND (push_bit bitIndex 1) \<noteq> 0
              else False)
        [0..<nat quantity]"

definition packCoils :: "int \<Rightarrow> bool list \<Rightarrow> byte list" where
  "packCoils quantity coils =
    fold (\<lambda>i coilBytes.
            if coils ! i
            then (let byteIndex = i div 8; bitIndex = i mod 8 in
                  coilBytes[byteIndex := (coilBytes ! byteIndex) OR (push_bit bitIndex 1)])
            else coilBytes)
         [0..<nat quantity]
         (replicate (nat ((quantity + 7) div 8)) 0)"

definition writeMultipleCoils :: handlerFn where
  "writeMultipleCoils be s frame =
    (case parseWriteMultipleRequest s frame of
       Inl err \<Rightarrow>
         (([], IllegalDataAddress), s, [Log ''failed to parse write multiple coils request: %v'' [AErr err]])
     | Inr (slaveID, address, quantity, data) \<Rightarrow>
         (case getClient s slaveID of
            Inl err \<Rightarrow>
              (([], SlaveDeviceFailure), s, [Log ''failed to get client: %v'' [AErr err]])
          | Inr client \<Rightarrow>
              (let coils = unpackCoils quantity data;
                   payload = packCoils quantity coils;
                   c = WriteMultipleCoils (word_of_int address) (word_of_int quantity) payload in
               case be slaveID c of
                 Inl err \<Rightarrow>
                   (([], SlaveDeviceFailure), s,
                    [Call slaveID c,
                     Log ''failed to write multiple coils (slave %d, addr %d, count %d): %v''
                       [AByte slaveID, AInt address, AInt quantity, AErr (ClientError err)]])
               | Inr results \<Rightarrow>
                   (let frameData = GetData frame;
                        maxLen = int (length frameData);
                        response = (if quantity * 4 > maxLen then take (nat maxLen) frameData
                                    else take (nat (quantity * 4)) frameData)
                    in ((response, Success), s,
                        [Call slaveID c,
                         Log ''write multiple coils success (slave %d, addr %d, count %d)''
                           [AByte slaveID, AInt address, AInt quantity]])))))"

text \<open>
  The two loops of \<^verbatim>\<open>writeMultipleRegisters\<close>: register \<open>i\<close> is read from the data
  while \<open>i*2+1 < len(data)\<close> and is 0 from there on; each register is then written back
  as two bytes, high byte first.
\<close>

definition unpackRegisters :: "int \<Rightarrow> byte list \<Rightarrow> uint16 list" where
  "unpackRegisters quantity data =
    map (\<lambda>i. if i * 2 + 1 < length data
              then push_bit 8 (ucast (data ! (i * 2))) OR ucast (data ! (i * 2 + 1))
              else 0)
        [0..<nat quantity]"

definition packRegisters :: "uint16 list \<Rightarrow> byte list" where
  "packRegisters registers =
    concat (map (\<lambda>v. [ucast (drop_bit 8 v), ucast v]) registers)"

definition writeMultipleRegisters :: handlerFn where
  "writeMultipleRegisters be s frame =
    (case parseWriteMultipleRequest s frame of
       Inl err \<Rightarrow>
         (([], IllegalDataAddress), s, [Log ''failed to parse write multiple registers request: %v'' [AErr err]])
     | Inr (slaveID, address, quantity, data) \<Rightarrow>
         (case getClient s slaveID of
            Inl err \<Rightarrow>
              (([], SlaveDeviceFailure), s, [Log ''failed to get client: %v'' [AErr err]])
          | Inr client \<Rightarrow>
              (let registers = unpackRegisters quantity data;
                   payload = packRegisters registers;
                   c = WriteMultipleRegisters (word_of_int address) (word_of_int quantity) payload in
               case be slaveID c of
                 Inl err \<Rightarrow>
                   (([], SlaveDeviceFailure), s,
                    [Call slaveID c,
                     Log ''failed to write multiple registers (slave %d, addr %d, count %d): %v''
                       [AByte slaveID, AInt address, AInt quantity, AErr (ClientError err)]])
               | Inr results \<Rightarrow>
                   (let frameData = GetData frame;
                        maxLen = int (length frameData);
                        response = (if quantity * 4 > maxLen then take (nat maxLen) frameData
                                    else take (nat (quantity * 4)) frameData)
                    in ((response, Success), s,
                        [Call slaveID c,
                         Log ''write multiple registers success (slave %d, addr %d, count %d)''
                           [AByte slaveID, AInt address, AInt quantity]])))))"

text \<open>\<^verbatim>\<open>registerHandlers\<close>: the handler registered for each function code.\<close>

definition registerHandlers :: "(nat \<times> handlerFn) list" where
  "registerHandlers =
    [(1, readCoils), (2, readDiscreteInputs), (3, readHoldingRegisters),
     (4, readInputRegisters), (5, writeSingleCoil), (6, writeSingleRegister),
     (15, writeMultipleCoils), (16, writeMultipleRegisters)]"

subsection \<open>forwarder.go: the connection monitor and shutdown\<close>

text \<open>
  The body of the loop of \<^verbatim>\<open>checkConnections\<close> for one entry of \<^verbatim>\<open>s.clients\<close>:
  the probe \<^verbatim>\<open>ReadHoldingRegisters(1, 1)\<close>, then the update of the client through its
  pointer. \<open>now\<close> is the value of \<^verbatim>\<open>time.Now()\<close> read for that slave.
  \<^verbatim>\<open>client.lastError.Error() != err.Error()\<close> compares the texts of the errors.
\<close>

definition checkClient ::
    "backend \<Rightarrow> (byte \<Rightarrow> nat) \<Rightarrow> byte \<Rightarrow> modbusClient \<Rightarrow> modbusClient \<times> event list" where
  "checkClient be now slaveID client =
    (let c = ReadHoldingRegisters 1 1 in
     case be slaveID c of
       Inl err \<Rightarrow>
         (if (case lastError client of None \<Rightarrow> True | Some e \<Rightarrow> e \<noteq> err)
          then (client\<lparr>lastError := Some err\<rparr>,
                [Call slaveID c,
                 Log ''slave %d connection exception: %v''
                   [AByte slaveID, AErr (ClientError err)]])
          else (client, [Call slaveID c]))
     | Inr results \<Rightarrow>
         (if lastError client \<noteq> None
          then (client\<lparr>lastError := None, lastConn := now slaveID\<rparr>,
                [Call slaveID c, Log ''slave %d connection restored'' [AByte slaveID]])
          else (client\<lparr>lastConn := now slaveID\<rparr>, [Call slaveID c])))"

fun checkLoop ::
    "backend \<Rightarrow> (byte \<Rightarrow> nat) \<Rightarrow> (byte \<times> modbusClient) list
      \<Rightarrow> (byte \<times> modbusClient) list \<times> event list" where
  "checkLoop be now [] = ([], [])"
| "checkLoop be now ((slaveID, client) # rest) =
    (let (client', ev) = checkClient be now slaveID client;
         (rest', ev') = checkLoop be now rest
     in ((slaveID, client') # rest', ev @ ev'))"

definition checkConnections ::
    "backend \<Rightarrow> (byte \<Rightarrow> nat) \<Rightarrow> Forwarder \<Rightarrow> Forwarder \<times> event list" where
  "checkConnections be now s =
    (let (cs, ev) = checkLoop be now (clients s) in (s\<lparr>clients := cs\<rparr>, ev))"

text \<open>
  \<^verbatim>\<open>monitorConnections\<close> waits for the context or the ticker. The model is given the
  signals that arrive, in order; a tick carries the behaviour of the devices and the
  clock at that time. The loop ends at \<open>Done\<close>; with no signal left it waits.
\<close>

datatype signal = Done | Tick backend "byte \<Rightarrow> nat"

fun monitorConnections :: "signal list \<Rightarrow> Forwarder \<Rightarrow> Forwarder \<times> event list" where
  "monitorConnections [] s = (s, [])"
| "monitorConnections (Done # rest) s = (s, [])"
| "monitorConnections (Tick be now # rest) s =
    (let (s1, ev) = checkConnections be now s;
         (s2, ev') = monitorConnections rest s1
     in (s2, ev @ ev'))"

text \<open>
  \<^verbatim>\<open>Stop\<close> closes the handler of every client (each is a TCP or an RTU handler) and
  logs one line.
\<close>

definition Stop :: "Forwarder \<Rightarrow> Forwarder \<times> event list" where
  "Stop s =
    (s, map (\<lambda>(slaveID, client). CloseHandler slaveID) (clients s)
        @ [Log ''modbus forwarder stopped'' []])"

subsection \<open>Reading a handler's result\<close>

type_synonym outcome = "(byte list \<times> Exception) \<times> Forwarder \<times> event list"

definition response :: "outcome \<Rightarrow> byte list \<times> Exception" where
  "response r = fst r"

definition stateAfter :: "outcome \<Rightarrow> Forwarder" where
  "stateAfter r = fst (snd r)"

definition trace :: "outcome \<Rightarrow> event list" where
  "trace r = snd (snd r)"

definition backendCalls :: "outcome \<Rightarrow> event list" where
  "backendCalls r = filter isCall (trace r)"

subsection \<open>The client of the modbus library\<close>

text \<open>
  Modelled from the spec: the client that \<^verbatim>\<open>forwarder.go\<close> imports from the modbus
  client library is not among the sources of the repository. A method of that client
  checks its arguments before it sends anything: for Write Single Coil the value is
  \<open>0xFF00\<close> or \<open>0x0000\<close> (any other value is invalid and is rejected before reaching the
  backend), and a quantity is at least 1 and at most the cap that Modbus defines for
  the function (2000 coils or discrete inputs and 125 registers read, 1968 coils and
  123 registers written). \<open>argumentError\<close> is the error of that check, with its text
  shortened. A call that passes the check is the one request sent to the device, whose
  answer the client returns: \<open>libraryClient device\<close> is the client in front of a device.
\<close>

definition argumentError :: "call \<Rightarrow> string option" where
  "argumentError c =
    (case c of
       ReadCoils a q \<Rightarrow>
         if q < 1 \<or> q > 2000 then Some ''modbus: quantity out of range'' else None
     | ReadDiscreteInputs a q \<Rightarrow>
         if q < 1 \<or> q > 2000 then Some ''modbus: quantity out of range'' else None
     | ReadHoldingRegisters a q \<Rightarrow>
         if q < 1 \<or> q > 125 then Some ''modbus: quantity out of range'' else None
     | ReadInputRegisters a q \<Rightarrow>
         if q < 1 \<or> q > 125 then Some ''modbus: quantity out of range'' else None
     | WriteSingleCoil a v \<Rightarrow>
         if v \<noteq> 0xFF00 \<and> v \<noteq> 0x0000
         then Some ''modbus: state must be either 0xFF00 (ON) or 0x0000 (OFF)'' else None
     | WriteSingleRegister a v \<Rightarrow> None
     | WriteMultipleCoils a q d \<Rightarrow>
         if q < 1 \<or> q > 1968 then Some ''modbus: quantity out of range'' else None
     | WriteMultipleRegisters a q d \<Rightarrow>
         if q < 1 \<or> q > 123 then Some ''modbus: quantity out of range'' else None)"

definition libraryClient :: "backend \<Rightarrow> backend" where
  "libraryClient device slaveID c =
    (case argumentError c of
       Some msg \<Rightarrow> Inl msg
     | None \<Rightarrow> device slaveID c)"



subsection \<open>A gateway with one TCP slave, for concrete runs\<close>

definition exampleServer :: Server where
  "exampleServer =
    \<lparr>ConnType = ''tcp'', SlaveID = 1, Addr = ''10.0.0.1'', Port = 0, BaudRate = 0,
     DataBits = 0, StopBits = 0, Parity = [], Timeout = 0\<rparr>"

definition exampleConfig :: Config where
  "exampleConfig = \<lparr>ListenPort = 0, Servers = [(1, exampleServer)]\<rparr>"

definition exampleClient :: modbusClient where
  "exampleClient =
    \<lparr>handler = TCPClientHandler ''10.0.0.1'' 0 0 1, connType = ''tcp'', addr = ''10.0.0.1'',
     port = 0, baudRate = 0, dataBits = 0, stopBits = 0, parity = [], timeout = 0,
     lastError = None, lastConn = 0\<rparr>"

definition exampleForwarder :: Forwarder where
  "exampleForwarder =
    \<lparr>config = \<lparr>ListenPort = 1602, Servers = [(1, exampleServer)]\<rparr>,
     clients = [(1, exampleClient)]\<rparr>"

text \<open>
  A Modbus-TCP frame as the listener hands it to a handler: the seven bytes of the MBAP
  header (transaction 1, protocol 0, length, unit identifier), the function code and
  the data.
\<close>

definition tcpFrame :: "byte \<Rightarrow> byte \<Rightarrow> byte list \<Rightarrow> Framer" where
  "tcpFrame unit fc data =
    \<lparr>Bytes = [0, 1, 0, 0, 0, of_nat (length data + 2), unit, fc] @ data, GetData = data\<rparr>"

text \<open>
  A device that answers every read of registers with the registers \<open>0x0001, 0x00FF\<close>
  (the client returns their four bytes) and every other request with no bytes, and a
  device that fails every request; each behind the client of the library.
\<close>

definition stubDevice :: backend where
  "stubDevice slaveID c =
    (case c of
       ReadHoldingRegisters a q \<Rightarrow> Inr [0x00, 0x01, 0x00, 0xFF]
     | ReadInputRegisters a q \<Rightarrow> Inr [0x00, 0x01, 0x00, 0xFF]
     | _ \<Rightarrow> Inr [])"

definition stubBackend :: backend where
  "stubBackend = libraryClient stubDevice"

definition failingBackend :: "string \<Rightarrow> backend" where
  "failingBackend msg = libraryClient (\<lambda>slaveID c. Inl msg)"

text \<open>A serial slave with every optional field absent.\<close>

definition exampleRtuServer :: Server where
  "exampleRtuServer =
    \<lparr>ConnType = ''rtu'', SlaveID = 2, Addr = ''/dev/ttyUSB0'', Port = 0, BaudRate = 0,
     DataBits = 0, StopBits = 0, Parity = [], Timeout = 0\<rparr>"

text \<open>
  The same gateway after a failed probe: the client of slave 1 holds the error.
\<close>

definition staleForwarder :: Forwarder where
  "staleForwarder =
    exampleForwarder\<lparr>clients := [(1, exampleClient\<lparr>lastError := Some ''timeout''\<rparr>)]\<rparr>"

subsection \<open>Probe outcomes, for stating what the monitor logs\<close>

text \<open>
  The outcome of the probe of a slave: the text of the error, or \<open>None\<close> when the read
  succeeds. \<open>changes\<close> counts the places of a sequence where an element differs from
  the one before it.
\<close>

definition probeOutcome :: "backend \<Rightarrow> byte \<Rightarrow> string option" where
  "probeOutcome be slaveID =
    (case be slaveID (ReadHoldingRegisters 1 1) of
       Inl err \<Rightarrow> Some err
     | Inr results \<Rightarrow> None)"

fun changes :: "'a list \<Rightarrow> nat" where
  "changes (x # y # rest) = (if x = y then 0 else 1) + changes (y # rest)"
| "changes [x] = 0"
| "changes [] = 0"

section \<open>Properties\<close>

lemmas handler_defs =
  readCoils_def readDiscreteInputs_def readHoldingRegisters_def readInputRegisters_def
  writeSingleCoil_def writeSingleRegister_def writeMultipleCoils_def
  writeMultipleRegisters_def

lemmas outcome_defs = response_def stateAfter_def trace_def backendCalls_def

lemmas example_defs =
  exampleServer_def exampleConfig_def exampleClient_def exampleForwarder_def tcpFrame_def
  stubBackend_def stubDevice_def failingBackend_def libraryClient_def argumentError_def
  staleForwarder_def exampleRtuServer_def

subsection \<open>Requests that do not decode\<close>

lemma undecoded_rejected:
  assumes "\<exists>err. parseRequest s frame = Inl err"
    and "\<exists>err. parseWriteSingleRequest s frame = Inl err"
    and "\<exists>err. parseWriteMultipleRequest s frame = Inl err"
    and "(fc, h) \<in> set registerHandlers"
  shows "response (h be s frame) = ([], IllegalDataAddress)
       \<and> backendCalls (h be s frame) = []
       \<and> stateAfter (h be s frame) = s"
  using assms by (auto simp: registerHandlers_def handler_defs outcome_defs)

lemma unknown_slave_not_decoded:
  assumes "map_of (Servers (config s)) (getSlaveID frame) = None"
  shows "\<exists>err. parseRequest s frame = Inl err"
    and "\<exists>err. parseWriteSingleRequest s frame = Inl err"
    and "\<exists>err. parseWriteMultipleRequest s frame = Inl err"
  using assms
  by (simp_all add: parseRequest_def parseWriteSingleRequest_def
        parseWriteMultipleRequest_def Let_def)

lemma zero_slave_not_decoded:
  assumes "getSlaveID frame = 0"
  shows "\<exists>err. parseRequest s frame = Inl err"
    and "\<exists>err. parseWriteSingleRequest s frame = Inl err"
    and "\<exists>err. parseWriteMultipleRequest s frame = Inl err"
  using assms
  by (simp_all add: parseRequest_def parseWriteSingleRequest_def
        parseWriteMultipleRequest_def Let_def)

text \<open>
  C4. A request whose unit identifier (as \<open>getSlaveID\<close> reads it from the frame) is not
  a key of \<^verbatim>\<open>config.Servers\<close>: each of the eight registered handlers returns no data
  and the exception IllegalDataAddress, calls no backend client and leaves the forwarder
  as it was.
\<close>

theorem unknown_slave_rejected:
  assumes "map_of (Servers (config s)) (getSlaveID frame) = None"
    and "(fc, h) \<in> set registerHandlers"
  shows "response (h be s frame) = ([], IllegalDataAddress)
       \<and> backendCalls (h be s frame) = []
       \<and> stateAfter (h be s frame) = s"
  using undecoded_rejected [OF unknown_slave_not_decoded [OF assms(1)] assms(2)] .

theorem unknown_slave_rejected_witness:
  "map_of (Servers (config exampleForwarder)) (getSlaveID (tcpFrame 9 3 [0, 0, 0, 2])) = None
   \<and> (3, readHoldingRegisters) \<in> set registerHandlers
   \<and> response (readHoldingRegisters stubBackend exampleForwarder (tcpFrame 9 3 [0, 0, 0, 2]))
       = ([], IllegalDataAddress)
   \<and> backendCalls (readHoldingRegisters stubBackend exampleForwarder (tcpFrame 9 3 [0, 0, 0, 2]))
       = []"
proof -
  have a: "map_of (Servers (config exampleForwarder)) (getSlaveID (tcpFrame 9 3 [0, 0, 0, 2])) = None"
    by (simp add: example_defs getSlaveID_def)
  have b: "(3, readHoldingRegisters) \<in> set registerHandlers"
    by (simp add: registerHandlers_def)
  from unknown_slave_rejected [OF a b, of stubBackend] a b show ?thesis by simp
qed

text \<open>
  C10. A request whose raw frame has fewer than seven bytes, or whose byte 6 is 0:
  \<open>getSlaveID\<close> reads the slave identifier 0 and each of the eight registered handlers
  returns IllegalDataAddress without a call to a backend client, whatever the
  configuration holds. The key 0 itself never passes \<open>validateServer\<close>.
\<close>

theorem zero_slave_rejected:
  assumes "length (Bytes frame) < 7 \<or> Bytes frame ! 6 = 0"
    and "(fc, h) \<in> set registerHandlers"
  shows "getSlaveID frame = 0
       \<and> response (h be s frame) = ([], IllegalDataAddress)
       \<and> backendCalls (h be s frame) = []
       \<and> stateAfter (h be s frame) = s
       \<and> validateServer 0 server = Some (InvalidSlaveID 0)"
proof -
  have z: "getSlaveID frame = 0"
    using assms(1) by (auto simp: getSlaveID_def)
  have v: "validateServer 0 server = Some (InvalidSlaveID 0)"
    by (simp add: validateServer_def validateServer_local_def)
  from undecoded_rejected [OF zero_slave_not_decoded [OF z] assms(2)] z v
  show ?thesis by simp
qed

theorem zero_slave_rejected_witness:
  "(length (Bytes (tcpFrame 0 5 [0, 5, 0xFF, 0])) < 7 \<or> Bytes (tcpFrame 0 5 [0, 5, 0xFF, 0]) ! 6 = 0)
   \<and> (5, writeSingleCoil) \<in> set registerHandlers
   \<and> response (writeSingleCoil stubBackend exampleForwarder (tcpFrame 0 5 [0, 5, 0xFF, 0]))
       = ([], IllegalDataAddress)
   \<and> backendCalls (writeSingleCoil stubBackend exampleForwarder (tcpFrame 0 5 [0, 5, 0xFF, 0]))
       = []"
proof -
  have a: "length (Bytes (tcpFrame 0 5 [0, 5, 0xFF, 0])) < 7 \<or> Bytes (tcpFrame 0 5 [0, 5, 0xFF, 0]) ! 6 = 0"
    by (simp add: tcpFrame_def)
  have b: "(5, writeSingleCoil) \<in> set registerHandlers"
    by (simp add: registerHandlers_def)
  from zero_slave_rejected [OF a b, of stubBackend exampleForwarder] a b show ?thesis by simp
qed

subsection \<open>Decoding a request of a configured slave\<close>

lemma parseRequest_configured:
  assumes "getSlaveID frame \<noteq> 0"
    and "map_of (Servers (config s)) (getSlaveID frame) \<noteq> None"
  shows "parseRequest s frame =
          (if length (GetData frame) < 4 then Inl InsufficientData
           else Inr (getSlaveID frame, be16 (GetData frame) 0, be16 (GetData frame) 2))"
  using assms by (auto simp: parseRequest_def Let_def)

lemma parseWriteSingleRequest_configured:
  assumes "getSlaveID frame \<noteq> 0"
    and "map_of (Servers (config s)) (getSlaveID frame) \<noteq> None"
  shows "parseWriteSingleRequest s frame =
          (if length (GetData frame) < 4 then Inl InsufficientData
           else Inr (getSlaveID frame, be16 (GetData frame) 0, be16 (GetData frame) 2))"
  using assms by (auto simp: parseWriteSingleRequest_def Let_def)

lemma parseWriteMultipleRequest_configured:
  assumes "getSlaveID frame \<noteq> 0"
    and "map_of (Servers (config s)) (getSlaveID frame) \<noteq> None"
  shows "parseWriteMultipleRequest s frame =
          (if length (GetData frame) < 6 then Inl InsufficientData
           else if int (length (GetData frame)) < 5 + uint (GetData frame ! 4)
             then Inl InsufficientDataForByteCount
           else Inr (getSlaveID frame, be16 (GetData frame) 0, be16 (GetData frame) 2,
                     take (unat (GetData frame ! 4)) (drop 5 (GetData frame))))"
  using assms by (auto simp: parseWriteMultipleRequest_def Let_def)

lemma handler_rejects_iff:
  assumes "getSlaveID frame \<noteq> 0"
    and "map_of (Servers (config s)) (getSlaveID frame) \<noteq> None"
    and "(fc, h) \<in> set registerHandlers"
  shows "(snd (response (h be s frame)) = IllegalDataAddress) =
           (if fc = 15 \<or> fc = 16
            then length (GetData frame) < 6
                 \<or> int (length (GetData frame)) < 5 + uint (GetData frame ! 4)
            else length (GetData frame) < 4)"
  using assms(3)
  by (auto simp: registerHandlers_def handler_defs outcome_defs Let_def
      parseRequest_configured [OF assms(1,2)]
      parseWriteSingleRequest_configured [OF assms(1,2)]
      parseWriteMultipleRequest_configured [OF assms(1,2)]
      split: sum.splits if_splits)

lemma rejected_without_call:
  assumes "(fc, h) \<in> set registerHandlers"
    and "snd (response (h be s frame)) = IllegalDataAddress"
  shows "backendCalls (h be s frame) = []"
  using assms
  by (auto simp: registerHandlers_def handler_defs outcome_defs Let_def
      split: sum.splits if_splits prod.splits)

text \<open>
  C5, as stated, fails: the data \<open>00 00 00 00 00\<close> of a Write Multiple Coils request
  to the configured slave 1 has five bytes and the byte count 0, so it is not shorter
  than 5 + byteCount; \<open>parseWriteMultipleRequest\<close> refuses it all the same (its first
  check asks for six bytes) and the handler answers IllegalDataAddress.
\<close>

theorem decode_minimum_counterexample:
  "getSlaveID (tcpFrame 1 15 [0, 0, 0, 0, 0]) = 1
   \<and> map_of (Servers (config exampleForwarder)) 1 \<noteq> None
   \<and> \<not> int (length (GetData (tcpFrame 1 15 [0, 0, 0, 0, 0])))
          < 5 + uint (GetData (tcpFrame 1 15 [0, 0, 0, 0, 0]) ! 4)
   \<and> parseWriteMultipleRequest exampleForwarder (tcpFrame 1 15 [0, 0, 0, 0, 0])
       = Inl InsufficientData
   \<and> response (writeMultipleCoils stubBackend exampleForwarder (tcpFrame 1 15 [0, 0, 0, 0, 0]))
       = ([], IllegalDataAddress)"
  by (simp add: example_defs getSlaveID_def parseWriteMultipleRequest_def handler_defs
        outcome_defs)

text \<open>
  C5, amended. For a frame whose unit identifier is not 0 and is a key of
  \<^verbatim>\<open>config.Servers\<close>: \<open>parseRequest\<close> and \<open>parseWriteSingleRequest\<close> (codes 1 to 6) fail
  exactly when the data has fewer than 4 bytes; \<open>parseWriteMultipleRequest\<close> (codes 15
  and 16) fails exactly when the data has fewer than 6 bytes or fewer than
  5 + byteCount bytes; otherwise each returns the slave, the two big-endian fields and,
  for codes 15 and 16, the byteCount bytes after the fifth. A registered handler
  answers IllegalDataAddress exactly in the failing case, and then calls no backend.
\<close>

theorem decode_fails_iff_short:
  assumes "getSlaveID frame \<noteq> 0"
    and "map_of (Servers (config s)) (getSlaveID frame) \<noteq> None"
    and "(fc, h) \<in> set registerHandlers"
  shows "parseRequest s frame =
           (if length (GetData frame) < 4 then Inl InsufficientData
            else Inr (getSlaveID frame, be16 (GetData frame) 0, be16 (GetData frame) 2))
       \<and> parseWriteSingleRequest s frame =
           (if length (GetData frame) < 4 then Inl InsufficientData
            else Inr (getSlaveID frame, be16 (GetData frame) 0, be16 (GetData frame) 2))
       \<and> parseWriteMultipleRequest s frame =
           (if length (GetData frame) < 6 then Inl InsufficientData
            else if int (length (GetData frame)) < 5 + uint (GetData frame ! 4)
              then Inl InsufficientDataForByteCount
            else Inr (getSlaveID frame, be16 (GetData frame) 0, be16 (GetData frame) 2,
                      take (unat (GetData frame ! 4)) (drop 5 (GetData frame))))
       \<and> (snd (response (h be s frame)) = IllegalDataAddress) =
           (if fc = 15 \<or> fc = 16
            then length (GetData frame) < 6
                 \<or> int (length (GetData frame)) < 5 + uint (GetData frame ! 4)
            else length (GetData frame) < 4)
       \<and> (snd (response (h be s frame)) = IllegalDataAddress
            \<longrightarrow> backendCalls (h be s frame) = [])"
  using parseRequest_configured [OF assms(1,2)]
    parseWriteSingleRequest_configured [OF assms(1,2)]
    parseWriteMultipleRequest_configured [OF assms(1,2)]
    handler_rejects_iff [OF assms, of be]
    rejected_without_call [OF assms(3), of be s frame]
  by simp

theorem decode_fails_iff_short_witness:
  "getSlaveID (tcpFrame 1 16 [0, 0, 0, 1, 2, 0xAB, 0xCD]) \<noteq> 0
   \<and> map_of (Servers (config exampleForwarder))
         (getSlaveID (tcpFrame 1 16 [0, 0, 0, 1, 2, 0xAB, 0xCD])) \<noteq> None
   \<and> (16, writeMultipleRegisters) \<in> set registerHandlers
   \<and> parseWriteMultipleRequest exampleForwarder (tcpFrame 1 16 [0, 0, 0, 1, 2, 0xAB, 0xCD])
       = Inr (1, 0, 1, [0xAB, 0xCD])
   \<and> snd (response (writeMultipleRegisters stubBackend exampleForwarder
                      (tcpFrame 1 16 [0, 0, 0, 1, 2, 0xAB, 0xCD]))) \<noteq> IllegalDataAddress"
proof -
  have a: "getSlaveID (tcpFrame 1 16 [0, 0, 0, 1, 2, 0xAB, 0xCD]) \<noteq> 0"
    by (simp add: tcpFrame_def getSlaveID_def)
  have b: "map_of (Servers (config exampleForwarder))
            (getSlaveID (tcpFrame 1 16 [0, 0, 0, 1, 2, 0xAB, 0xCD])) \<noteq> None"
    by (simp add: example_defs getSlaveID_def)
  have c: "(16, writeMultipleRegisters) \<in> set registerHandlers"
    by (simp add: registerHandlers_def)
  from decode_fails_iff_short [OF a b c, of stubBackend] a b c show ?thesis
    by (simp add: tcpFrame_def getSlaveID_def be16_def)
qed

subsection \<open>Write Single Coil\<close>














subsection \<open>The health fields of a client\<close>

lemma handlers_keep_state:
  assumes "(fc, h) \<in> set registerHandlers"
  shows "stateAfter (h be s frame) = s \<and> filter isClose (trace (h be s frame)) = []"
  using assms
  by (auto simp: registerHandlers_def handler_defs outcome_defs Let_def
      split: sum.splits if_splits prod.splits)

lemma checkClient_client:
  "fst (checkClient be now k c) =
     (case be k (ReadHoldingRegisters 1 1) of
        Inl err \<Rightarrow> c\<lparr>lastError := Some err\<rparr>
      | Inr results \<Rightarrow> c\<lparr>lastError := None, lastConn := now k\<rparr>)"
  by (auto simp: checkClient_def Let_def split: sum.splits option.splits)

lemma checkClient_no_close: "filter isClose (snd (checkClient be now k c)) = []"
  by (auto simp: checkClient_def Let_def split: sum.splits option.splits)

lemma checkLoop_clients:
  "fst (checkLoop be now cs) = map (\<lambda>(k, c). (k, fst (checkClient be now k c))) cs"
  by (induction cs) (auto simp: Let_def split: prod.splits)

lemma checkLoop_events:
  "snd (checkLoop be now cs) = concat (map (\<lambda>(k, c). snd (checkClient be now k c)) cs)"
  by (induction cs) (auto simp: Let_def split: prod.splits)

lemma checkConnections_clients:
  "clients (fst (checkConnections be now s)) =
     map (\<lambda>(k, c). (k, fst (checkClient be now k c))) (clients s)"
  by (simp add: checkConnections_def case_prod_beta checkLoop_clients)

lemma checkConnections_events:
  "snd (checkConnections be now s) =
     concat (map (\<lambda>(k, c). snd (checkClient be now k c)) (clients s))"
  by (simp add: checkConnections_def case_prod_beta checkLoop_events)

lemma checkConnections_no_close: "filter isClose (snd (checkConnections be now s)) = []"
proof -
  have "filter isClose (concat (map (\<lambda>(k, c). snd (checkClient be now k c)) cs)) = []" for cs
    by (induction cs) (auto simp: checkClient_no_close)
  then show ?thesis by (simp add: checkConnections_events)
qed

text \<open>
  C6, as stated, fails: a successful Read Coils round trip to slave 1, whose client
  holds the error of an earlier probe, leaves that error in place, and a failed round
  trip to a healthy client leaves \<open>lastError\<close> empty. No handler writes a field of a
  client.
\<close>

theorem request_path_health_counterexample:
  "response (readCoils stubBackend staleForwarder (tcpFrame 1 1 [0, 0, 0, 8])) = ([0], Success)
   \<and> map_option lastError (map_of (clients (stateAfter
        (readCoils stubBackend staleForwarder (tcpFrame 1 1 [0, 0, 0, 8])))) 1) = Some (Some ''timeout'')
   \<and> response (readCoils (failingBackend ''timeout'') exampleForwarder (tcpFrame 1 1 [0, 0, 0, 8]))
       = ([], SlaveDeviceFailure)
   \<and> map_option lastError (map_of (clients (stateAfter
        (readCoils (failingBackend ''timeout'') exampleForwarder (tcpFrame 1 1 [0, 0, 0, 8])))) 1) = Some None"
  by (simp add: example_defs handler_defs outcome_defs parseRequest_def
        getSlaveID_def getClient_def be16_def)

text \<open>
  C6, amended. A registered handler returns the forwarder as it got it (so
  \<open>lastError\<close> and \<open>lastConn\<close> of every client stay as they were, after a successful
  and after a failed round trip) and closes no transport. The probe of
  \<open>checkConnections\<close> is what keeps the two fields: for each client, a failed probe
  stores its error and leaves \<open>lastConn\<close>, a successful probe clears \<open>lastError\<close> and
  sets \<open>lastConn\<close> to the current time; no other field changes, and no transport is
  closed.
\<close>

theorem health_fields_kept_by_probe:
  assumes "(fc, h) \<in> set registerHandlers"
  shows "stateAfter (h be s frame) = s
       \<and> filter isClose (trace (h be s frame)) = []
       \<and> fst (checkClient be now k c) =
           (case be k (ReadHoldingRegisters 1 1) of
              Inl err \<Rightarrow> c\<lparr>lastError := Some err\<rparr>
            | Inr results \<Rightarrow> c\<lparr>lastError := None, lastConn := now k\<rparr>)
       \<and> clients (fst (checkConnections be now s)) =
           map (\<lambda>(k, c). (k, fst (checkClient be now k c))) (clients s)
       \<and> filter isClose (snd (checkConnections be now s)) = []"
  using handlers_keep_state [OF assms, of be s frame] checkClient_client [of be now k c]
    checkConnections_clients [of be now s] checkConnections_no_close [of be now s]
  by simp

theorem health_fields_kept_by_probe_witness:
  "(1, readCoils) \<in> set registerHandlers
   \<and> stateAfter (readCoils stubBackend staleForwarder (tcpFrame 1 1 [0, 0, 0, 8])) = staleForwarder
   \<and> clients (fst (checkConnections stubBackend (\<lambda>k. 30) staleForwarder))
       = [(1, exampleClient\<lparr>lastError := None, lastConn := 30\<rparr>)]
   \<and> clients (fst (checkConnections (failingBackend ''refused'') (\<lambda>k. 30) exampleForwarder))
       = [(1, exampleClient\<lparr>lastError := Some ''refused''\<rparr>)]"
proof -
  have a: "(1, readCoils) \<in> set registerHandlers"
    by (simp add: registerHandlers_def)
  from health_fields_kept_by_probe [OF a, of stubBackend staleForwarder "tcpFrame 1 1 [0, 0, 0, 8]" "\<lambda>k. 30"]
       health_fields_kept_by_probe [OF a, of "failingBackend ''refused''" exampleForwarder "tcpFrame 1 1 [0, 0, 0, 8]" "\<lambda>k. 30"]
       a
  show ?thesis
    by (simp add: example_defs checkClient_def)
qed

subsection \<open>What the monitor logs\<close>

lemma checkClient_lastError: "lastError (fst (checkClient be now k c)) = probeOutcome be k"
  by (simp add: checkClient_client probeOutcome_def split: sum.splits)

lemma checkClient_logs:
  "filter isLog (snd (checkClient be now k c)) =
     (if probeOutcome be k = lastError c then []
      else [case probeOutcome be k of
              Some err \<Rightarrow>
                Log ''slave %d connection exception: %v'' [AByte k, AErr (ClientError err)]
            | None \<Rightarrow> Log ''slave %d connection restored'' [AByte k]])"
  by (auto simp: checkClient_def probeOutcome_def Let_def split: sum.splits option.splits)

lemma checkConnections_log_count:
  "length (filter isLog (snd (checkConnections be now s))) =
     (\<Sum>(k, c)\<leftarrow>clients s. if lastError c = probeOutcome be k then 0 else 1)"
proof -
  have "length (filter isLog (concat (map (\<lambda>(k, c). snd (checkClient be now k c)) cs))) =
     (\<Sum>(k, c)\<leftarrow>cs. if lastError c = probeOutcome be k then 0 else 1)" for cs
    by (induction cs) (auto simp: checkClient_logs)
  then show ?thesis by (simp add: checkConnections_events)
qed

lemma monitor_log_count:
  "length (filter isLog (snd (monitorConnections (map (\<lambda>(be, now). Tick be now) ticks) s))) =
     (\<Sum>(k, c)\<leftarrow>clients s. changes (lastError c # map (\<lambda>(be, now). probeOutcome be k) ticks))"
proof (induction ticks arbitrary: s)
  case Nil
  have "(\<Sum>(k, c)\<leftarrow>cs. changes [lastError c]) = 0" for cs :: "(byte \<times> modbusClient) list"
    by (induction cs) auto
  then show ?case by simp
next
  case (Cons t ticks)
  obtain be now where t: "t = (be, now)" by (cases t)
  obtain s1 ev where c: "checkConnections be now s = (s1, ev)"
    by (cases "checkConnections be now s")
  have s1: "clients s1 = map (\<lambda>(k, c). (k, fst (checkClient be now k c))) (clients s)"
    using checkConnections_clients [of be now s] c by simp
  have ev: "length (filter isLog ev) =
      (\<Sum>(k, c)\<leftarrow>clients s. if lastError c = probeOutcome be k then 0 else 1)"
    using checkConnections_log_count [of be now s] c by simp
  obtain s2 ev' where m: "monitorConnections (map (\<lambda>(be, now). Tick be now) ticks) s1 = (s2, ev')"
    by (cases "monitorConnections (map (\<lambda>(be, now). Tick be now) ticks) s1")
  have rest: "length (filter isLog ev') =
     (\<Sum>(k, c)\<leftarrow>map (\<lambda>(k, c). (k, fst (checkClient be now k c))) (clients s).
         changes (lastError c # map (\<lambda>(be, now). probeOutcome be k) ticks))"
    using Cons.IH [of s1] m s1 by simp
  have sum: "(\<Sum>(k, c)\<leftarrow>cs. if lastError c = probeOutcome be k then 0 else 1)
             + (\<Sum>(k, c)\<leftarrow>map (\<lambda>(k, c). (k, fst (checkClient be now k c))) cs.
                changes (lastError c # map (\<lambda>(be, now). probeOutcome be k) ticks))
           = (\<Sum>(k, c)\<leftarrow>cs. changes (lastError c
                 # map (\<lambda>(be, now). probeOutcome be k) ((be, now) # ticks)))"
    for cs
    by (induction cs) (auto simp: checkClient_lastError)
  have "snd (monitorConnections (map (\<lambda>(be, now). Tick be now) (t # ticks)) s) = ev @ ev'"
    by (simp add: t c m)
  then have "length (filter isLog
        (snd (monitorConnections (map (\<lambda>(be, now). Tick be now) (t # ticks)) s)))
      = length (filter isLog ev) + length (filter isLog ev')"
    by simp
  also have "\<dots> = (\<Sum>(k, c)\<leftarrow>clients s. changes (lastError c
                 # map (\<lambda>(be, now). probeOutcome be k) ((be, now) # ticks)))"
    unfolding ev rest by (rule sum)
  finally show ?case by (simp only: t)
qed

text \<open>
  C7, as stated, fails: the client of slave 1 holds the error \<open>timeout\<close> of the last
  probe; the next probe fails with \<open>refused\<close>. The connection was failing before the
  tick and is failing after it, and the tick logs a line.
\<close>

theorem monitor_relogs_counterexample:
  "map_option lastError (map_of (clients staleForwarder) 1) = Some (Some ''timeout'')
   \<and> map_option lastError (map_of (clients (fst
        (checkConnections (failingBackend ''refused'') (\<lambda>k. 30) staleForwarder))) 1)
       = Some (Some ''refused'')
   \<and> filter isLog (snd (checkConnections (failingBackend ''refused'') (\<lambda>k. 30) staleForwarder))
       = [Log ''slave %d connection exception: %v'' [AByte 1, AErr (ClientError ''refused'')]]"
  by (simp add: example_defs checkConnections_def checkClient_def)

text \<open>
  C7, amended. Each client retains the outcome of its last probe in \<open>lastError\<close> (the
  text of the error, or nothing after a success), and a probe logs one line exactly
  when its outcome differs from the retained one: a failure after a success or after a
  failure with another text, and a success after a failure. A failure with the same
  text logs nothing. Over any sequence of ticks the number of lines logged is the
  number of such changes, summed over the clients.
\<close>

theorem monitor_logs_outcome_changes:
  "lastError (fst (checkClient be now k c)) = probeOutcome be k
   \<and> filter isLog (snd (checkClient be now k c)) =
       (if probeOutcome be k = lastError c then []
        else [case probeOutcome be k of
                Some err \<Rightarrow>
                  Log ''slave %d connection exception: %v'' [AByte k, AErr (ClientError err)]
              | None \<Rightarrow> Log ''slave %d connection restored'' [AByte k]])
   \<and> length (filter isLog
         (snd (monitorConnections (map (\<lambda>(be, now). Tick be now) ticks) s))) =
       (\<Sum>(k, c)\<leftarrow>clients s.
           changes (lastError c # map (\<lambda>(be, now). probeOutcome be k) ticks))"
  using checkClient_lastError [of be now k c] checkClient_logs [of be now k c]
    monitor_log_count [of ticks s]
  by simp

theorem monitor_logs_outcome_changes_witness:
  "length (filter isLog (snd (monitorConnections
      [Tick (failingBackend ''timeout'') (\<lambda>k. 30), Tick (failingBackend ''timeout'') (\<lambda>k. 60),
       Tick stubBackend (\<lambda>k. 90)] exampleForwarder))) = 2
   \<and> filter isLog (snd (checkClient (failingBackend ''timeout'') (\<lambda>k. 60) 1
        (exampleClient\<lparr>lastError := Some ''timeout''\<rparr>))) = []"
  using monitor_logs_outcome_changes [of "failingBackend ''timeout''" "\<lambda>k. 60" 1
      "exampleClient\<lparr>lastError := Some ''timeout''\<rparr>"
      "[(failingBackend ''timeout'', \<lambda>k. 30), (failingBackend ''timeout'', \<lambda>k. 60),
        (stubBackend, \<lambda>k. 90)]" exampleForwarder]
  by (simp add: example_defs probeOutcome_def)

subsection \<open>The responses to reads of registers\<close>

lemma read_registers_response:
  assumes "parseRequest s frame = Inr (k, a, q)"
    and "getClient s k = Inr client"
    and "be k (ReadHoldingRegisters (word_of_int a) (word_of_int q)) = Inr results"
  shows "response (readHoldingRegisters be s frame)
          = (of_nat (length results * 2) # results, Success)"
  using assms by (simp add: readHoldingRegisters_def outcome_defs)

text \<open>
  C1. Read Holding Registers and Read Input Registers for address 0 and quantity 2 at
  slave 1, whose client returns the four bytes \<open>00 01 00 FF\<close> of the registers
  \<open>0x0001, 0x00FF\<close>: the handler puts twice the number of returned bytes in front, so
  the response data is \<open>08 00 01 00 FF\<close>, where the claim has the byte count \<open>04\<close>.
\<close>

theorem read_registers_byte_count_evaluated:
  "response (readHoldingRegisters stubBackend exampleForwarder (tcpFrame 1 3 [0, 0, 0, 2]))
     = ([0x08, 0x00, 0x01, 0x00, 0xFF], Success)
   \<and> backendCalls (readHoldingRegisters stubBackend exampleForwarder (tcpFrame 1 3 [0, 0, 0, 2]))
     = [Call 1 (ReadHoldingRegisters 0 2)]
   \<and> response (readInputRegisters stubBackend exampleForwarder (tcpFrame 1 4 [0, 0, 0, 2]))
     = ([0x08, 0x00, 0x01, 0x00, 0xFF], Success)
   \<and> backendCalls (readInputRegisters stubBackend exampleForwarder (tcpFrame 1 4 [0, 0, 0, 2]))
     = [Call 1 (ReadInputRegisters 0 2)]"
  by (simp add: example_defs handler_defs outcome_defs parseRequest_def
        getSlaveID_def getClient_def be16_def)

subsection \<open>The responses to writes of several coils or registers\<close>

lemma write_multiple_registers_response:
  assumes "parseWriteMultipleRequest s frame = Inr (k, a, q, data)"
    and "getClient s k = Inr client"
    and "be k (WriteMultipleRegisters (word_of_int a) (word_of_int q)
                (packRegisters (unpackRegisters q data))) = Inr results"
  shows "response (writeMultipleRegisters be s frame)
          = (take (nat (q * 4)) (GetData frame), Success)"
  using assms by (auto simp: writeMultipleRegisters_def outcome_defs Let_def)

text \<open>
  C2. Write Multiple Registers with quantity 7 answers with the 19 bytes of the whole
  request, Write Multiple Coils with quantity 7 with its 6 bytes and Write Multiple
  Registers with quantity 123 with 251 bytes; only for quantity 1 is the response the
  four bytes of the address and the quantity.
\<close>

theorem write_multiple_echo_evaluated:
  "response (writeMultipleRegisters stubBackend exampleForwarder
      (tcpFrame 1 16 [0, 0, 0, 7, 14, 0, 1, 0, 2, 0, 3, 0, 4, 0, 5, 0, 6, 0, 7]))
     = ([0, 0, 0, 7, 14, 0, 1, 0, 2, 0, 3, 0, 4, 0, 5, 0, 6, 0, 7], Success)
   \<and> response (writeMultipleCoils stubBackend exampleForwarder
      (tcpFrame 1 15 [0, 0, 0, 7, 1, 0x55]))
     = ([0, 0, 0, 7, 1, 0x55], Success)
   \<and> length (fst (response (writeMultipleRegisters stubBackend exampleForwarder
      (tcpFrame 1 16 ([0, 0, 0, 123, 246] @ replicate 246 0))))) = 251
   \<and> response (writeMultipleRegisters stubBackend exampleForwarder
      (tcpFrame 1 16 [0, 0, 0, 1, 2, 0xAB, 0xCD]))
     = ([0, 0, 0, 1], Success)"
  by (simp add: example_defs handler_defs outcome_defs parseWriteMultipleRequest_def
        getSlaveID_def getClient_def be16_def Let_def)

subsection \<open>The defaults of the configuration\<close>

lemma validateConfig_result:
  "Servers (snd (validateConfig C)) = Servers C
   \<and> ListenPort (snd (validateConfig C)) = (if ListenPort C \<le> 0 then 1602 else ListenPort C)"
  by (simp add: validateConfig_def Let_def)

text \<open>
  C8. A configuration with the listen port absent, a TCP slave with only its address
  and a serial slave with only its device: validation succeeds and the listen port is
  1602, but the servers are as they were decoded (port, timeout, baud rate, data bits,
  stop bits 0, parity empty). The defaults 502, 2, 9600, 8, 1 and \<open>N\<close> exist in the local
  copy of \<open>validateServer\<close> only, and the client that \<open>createClient\<close> builds from the
  validated configuration has the port 0 and the timeout 0.
\<close>

theorem config_defaults_evaluated:
  "validateConfig \<lparr>ListenPort = 0, Servers = [(1, exampleServer), (2, exampleRtuServer)]\<rparr>
     = (None, \<lparr>ListenPort = 1602, Servers = [(1, exampleServer), (2, exampleRtuServer)]\<rparr>)
   \<and> Port exampleServer = 0 \<and> Timeout exampleServer = 0
   \<and> BaudRate exampleRtuServer = 0 \<and> DataBits exampleRtuServer = 0
   \<and> StopBits exampleRtuServer = 0 \<and> Parity exampleRtuServer = []
   \<and> Timeout exampleRtuServer = 0
   \<and> validateServer_local 1 exampleServer = (None, exampleServer\<lparr>Port := 502, Timeout := 2\<rparr>)
   \<and> validateServer_local 2 exampleRtuServer
       = (None, exampleRtuServer\<lparr>BaudRate := 9600, DataBits := 8, StopBits := 1,
                                  Parity := ''N'', Timeout := 2\<rparr>)
   \<and> initClients (NewForwarder (snd (validateConfig exampleConfig))) = (None, exampleForwarder)
   \<and> port exampleClient = 0 \<and> timeout exampleClient = 0"
  by (simp add: example_defs validateConfig_def validateServer_def validateServer_local_def
        defaultTimeout_def initClients_def NewForwarder_def createClient_def seconds_def Let_def)

end
